theory Spec2Isabelle
  imports
    Complex_Main
    "HOL-Library.AList"
    "HOL-Library.Char_ord"
    "HOL-Library.List_Lexorder"
    "HOL-Library.Product_Lexorder"
    "HOL-Library.Multiset"
    "HOL-Library.Word"
begin

section \<open>Entry service: data model\<close>

text \<open>
  The service of \<^verbatim>\<open>main.py\<close> is a thin layer over one document collection
  (\<^verbatim>\<open>COLL = "curdentry"\<close>). Strings are byte strings in UTF-8; the two symbols of the
  status report that lie outside ASCII are spelled out as their three bytes.

  A stored value is a string (\<^verbatim>\<open>date\<close>, \<^verbatim>\<open>time\<close>), a number (\<^verbatim>\<open>quantity\<close>,
  \<^verbatim>\<open>amount\<close>) or a timestamp (\<^verbatim>\<open>created_at\<close>, \<^verbatim>\<open>updated_at\<close>). The program only
  stores and returns numbers and never computes with them, so a number is modelled by
  the rational it denotes.
\<close>

record datetime =
  year :: nat
  month :: nat
  day :: nat
  hour :: nat
  minute :: nat
  second :: nat
  microsecond :: nat

datatype val = Str string | Num rat | Time datetime

type_synonym oid = "8 word list"

text \<open>
  A document is a Python \<^verbatim>\<open>dict\<close>. Its key \<^verbatim>\<open>_id\<close>, which in this collection only ever
  holds an \<^verbatim>\<open>ObjectId\<close>, has a slot of its own (\<open>None\<close> when the key is absent); the
  other keys are an association list in insertion order.
\<close>

record document =
  doc_id :: "oid option"
  doc_fields :: "(string \<times> val) list"

type_synonym collection = "document list"

text \<open>The module-level handle \<^verbatim>\<open>db\<close>: \<open>None\<close> when no database is configured.\<close>

type_synonym database = "collection option"

datatype error =
    HTTPException (status_code: nat) (detail: string)
  | InvalidId
  | DuplicateKeyError

text \<open>\<^verbatim>\<open>class CurdEntryUpdate(BaseModel)\<close>: every field optional, default \<^verbatim>\<open>None\<close>.\<close>

record CurdEntryUpdate =
  date :: "string option"
  time :: "string option"
  quantity :: "rat option"
  amount :: "rat option"

section \<open>Identifiers\<close>

text \<open>
  \<^verbatim>\<open>bson.objectid.ObjectId\<close> built from a string: a string of 24 characters is handed
  to \<^verbatim>\<open>bytes.fromhex\<close> and the identifier holds the bytes that come back; any other
  string, and any failure of \<^verbatim>\<open>bytes.fromhex\<close>, raises \<^verbatim>\<open>InvalidId\<close>.
  \<^verbatim>\<open>bytes.fromhex\<close> reads two hexadecimal digits (either case) per byte and skips
  ASCII whitespace before a byte, not inside one. So the strings of 24 hexadecimal digits
  give the twelve bytes they denote, and a string of 24 characters with whitespace around
  its digit pairs is accepted too and gives fewer bytes. \<^verbatim>\<open>str\<close> of an identifier is
  the lower-case hexadecimal digits of its bytes.
\<close>

definition hex_value :: "char \<Rightarrow> nat option" where
  "hex_value c =
     (let n = (of_char c :: nat) in
      if 48 \<le> n \<and> n \<le> 57 then Some (n - 48)
      else if 97 \<le> n \<and> n \<le> 102 then Some (n - 87)
      else if 65 \<le> n \<and> n \<le> 70 then Some (n - 55)
      else None)"

definition hex_digit :: "nat \<Rightarrow> char" where
  "hex_digit n = ''0123456789abcdef'' ! (n mod 16)"

definition isspace :: "char \<Rightarrow> bool" where
  "isspace c \<longleftrightarrow> (let n = (of_char c :: nat) in (9 \<le> n \<and> n \<le> 13) \<or> n = 32)"

fun fromhex :: "string \<Rightarrow> 8 word list option" where
  "fromhex [] = Some []"
| "fromhex [c] = (if isspace c then Some [] else None)"
| "fromhex (c # d # cs) =
     (if isspace c then fromhex (d # cs)
      else
        (case (hex_value c, hex_value d, fromhex cs) of
           (Some h, Some l, Some bs) \<Rightarrow> Some (of_nat (16 * h + l) # bs)
         | _ \<Rightarrow> None))"

definition ObjectId :: "string \<Rightarrow> error + oid" where
  "ObjectId s =
     (if length s = 24 then
        (case fromhex s of None \<Rightarrow> Inl InvalidId | Some bs \<Rightarrow> Inr bs)
      else Inl InvalidId)"


definition hexlify :: "8 word list \<Rightarrow> string" where
  "hexlify bs = concat (map (\<lambda>b. [hex_digit (unat b div 16), hex_digit (unat b mod 16)]) bs)"

definition str_oid :: "oid \<Rightarrow> string" where
  "str_oid i = hexlify i"

section \<open>Serialization\<close>

text \<open>
  \<^verbatim>\<open>datetime.isoformat()\<close> of a naive timestamp (the driver returns naive timestamps):
  \<^verbatim>\<open>YYYY-MM-DDTHH:MM:SS\<close>, followed by \<^verbatim>\<open>.ffffff\<close> when the microseconds are not zero.
\<close>

definition digit :: "nat \<Rightarrow> char" where
  "digit n = ''0123456789'' ! (n mod 10)"

definition pad2 :: "nat \<Rightarrow> string" where
  "pad2 n = [digit (n div 10), digit n]"

definition pad4 :: "nat \<Rightarrow> string" where
  "pad4 n = [digit (n div 1000), digit (n div 100), digit (n div 10), digit n]"

definition pad6 :: "nat \<Rightarrow> string" where
  "pad6 n = [digit (n div 100000), digit (n div 10000), digit (n div 1000),
             digit (n div 100), digit (n div 10), digit n]"

definition isoformat :: "datetime \<Rightarrow> string" where
  "isoformat t =
     pad4 (year t) @ ''-'' @ pad2 (month t) @ ''-'' @ pad2 (day t) @ ''T'' @
     pad2 (hour t) @ '':'' @ pad2 (minute t) @ '':'' @ pad2 (second t) @
     (if microsecond t = 0 then [] else ''.'' @ pad6 (microsecond t))"

text \<open>
  The loop of \<^verbatim>\<open>_serialize\<close> over the items: a value with an \<^verbatim>\<open>isoformat\<close> attribute is
  replaced, under the same key, by its ISO string.
\<close>

fun iso_value :: "val \<Rightarrow> val" where
  "iso_value (Time t) = Str (isoformat t)"
| "iso_value v = v"

definition iso_items :: "(string \<times> val) list \<Rightarrow> (string \<times> val) list" where
  "iso_items d = map (\<lambda>(k, v). (k, iso_value v)) d"

text \<open>
  \<^verbatim>\<open>_serialize\<close>. A falsy argument (\<^verbatim>\<open>None\<close> or the empty dict) is returned as it is.
  Otherwise the key \<^verbatim>\<open>_id\<close>, when present, is popped and its string stored under
  \<^verbatim>\<open>id\<close> (in place when that key exists, at the end otherwise, as a dict assignment
  does), and then the timestamps are rendered.
\<close>

definition falsy :: "document \<Rightarrow> bool" where
  "falsy doc \<longleftrightarrow> doc_id doc = None \<and> doc_fields doc = []"

definition serialize_dict :: "document \<Rightarrow> (string \<times> val) list" where
  "serialize_dict doc =
     (if falsy doc then doc_fields doc
      else
        let d = (case doc_id doc of
                   Some i \<Rightarrow> AList.update ''id'' (Str (str_oid i)) (doc_fields doc)
                 | None \<Rightarrow> doc_fields doc)
        in iso_items d)"

definition serialize :: "document option \<Rightarrow> (string \<times> val) list option" where
  "serialize doc = (case doc of None \<Rightarrow> None | Some d \<Rightarrow> Some (serialize_dict d))"

section \<open>The document store\<close>

text \<open>
  The collection as the driver presents it: the documents in their natural order.
  A timestamp is stored with millisecond precision; strings and numbers are stored as
  they are.
\<close>

fun to_bson :: "val \<Rightarrow> val" where
  "to_bson (Time t) = Time (t\<lparr>microsecond := microsecond t - microsecond t mod 1000\<rparr>)"
| "to_bson v = v"

text \<open>\<^verbatim>\<open>find_one({"_id": oid})\<close>: the first document with that identifier.\<close>

definition find_one :: "collection \<Rightarrow> oid \<Rightarrow> document option" where
  "find_one coll i = List.find (\<lambda>d. doc_id d = Some i) coll"

text \<open>
  \<^verbatim>\<open>insert_one\<close> of a dict without \<^verbatim>\<open>_id\<close>: the driver assigns the identifier \<open>new_id\<close>
  and the store refuses an identifier that is in use.
\<close>

definition insert_one ::
  "collection \<Rightarrow> oid \<Rightarrow> (string \<times> val) list \<Rightarrow> error + (oid \<times> collection)" where
  "insert_one coll new_id data =
     (if find_one coll new_id \<noteq> None then Inl DuplicateKeyError
      else Inr (new_id,
                coll @ [\<lparr>doc_id = Some new_id,
                         doc_fields = map (\<lambda>(k, v). (k, to_bson v)) data\<rparr>]))"

text \<open>
  \<^verbatim>\<open>update_one({"_id": oid}, {"$set": updates})\<close>: in the first matching document each
  key of \<open>updates\<close> is assigned in turn (an existing key keeps its place, a new one is
  appended). The first component is \<^verbatim>\<open>matched_count\<close>.
\<close>

fun set_fields :: "(string \<times> val) list \<Rightarrow> (string \<times> val) list \<Rightarrow> (string \<times> val) list" where
  "set_fields [] fs = fs"
| "set_fields ((k, v) # us) fs = set_fields us (AList.update k (to_bson v) fs)"

fun update_one :: "collection \<Rightarrow> oid \<Rightarrow> (string \<times> val) list \<Rightarrow> nat \<times> collection" where
  "update_one [] i us = (0, [])"
| "update_one (d # ds) i us =
     (if doc_id d = Some i then (1, d\<lparr>doc_fields := set_fields us (doc_fields d)\<rparr> # ds)
      else (fst (update_one ds i us), d # snd (update_one ds i us)))"

text \<open>\<^verbatim>\<open>delete_one({"_id": oid})\<close>; the first component is \<^verbatim>\<open>deleted_count\<close>.\<close>

fun delete_one :: "collection \<Rightarrow> oid \<Rightarrow> nat \<times> collection" where
  "delete_one [] i = (0, [])"
| "delete_one (d # ds) i =
     (if doc_id d = Some i then (1, ds)
      else (fst (delete_one ds i), d # snd (delete_one ds i)))"

text \<open>
  \<^verbatim>\<open>find().sort([("date", -1), ("time", -1)])\<close>. The store compares two values first by
  the rank of their kind (a missing field counts as null, below numbers, below strings,
  below timestamps), then within the kind: numbers by value, strings byte by byte,
  timestamps chronologically. The order among documents with equal keys is not promised
  by the store; the model reverses a stable ascending sort.
\<close>

type_synonym bson_key = "nat \<times> rat \<times> string \<times> nat list"

fun bson_key :: "val option \<Rightarrow> bson_key" where
  "bson_key None = (2, 0, [], [])"
| "bson_key (Some (Num x)) = (3, x, [], [])"
| "bson_key (Some (Str s)) = (4, 0, s, [])"
| "bson_key (Some (Time t)) =
     (10, 0, [], [year t, month t, day t, hour t, minute t, second t, microsecond t])"

definition date_key :: "document \<Rightarrow> bson_key" where
  "date_key d = bson_key (map_of (doc_fields d) ''date'')"

definition time_key :: "document \<Rightarrow> bson_key" where
  "time_key d = bson_key (map_of (doc_fields d) ''time'')"

definition find_sorted :: "collection \<Rightarrow> document list" where
  "find_sorted coll = rev (sort_key (\<lambda>d. (date_key d, time_key d)) coll)"

section \<open>The handlers\<close>

text \<open>\<^verbatim>\<open>list_entries\<close> (\<^verbatim>\<open>GET /api/entries\<close>).\<close>

definition list_entries :: "database \<Rightarrow> (string \<times> val) list list" where
  "list_entries db =
     (case db of
        None \<Rightarrow> []
      | Some coll \<Rightarrow> map serialize_dict (find_sorted coll))"

text \<open>\<^verbatim>\<open>payload.model_dump(exclude_none=True)\<close>: the fields that are not \<^verbatim>\<open>None\<close>, in the
  order of the class.\<close>

definition model_dump_exclude_none :: "CurdEntryUpdate \<Rightarrow> (string \<times> val) list" where
  "model_dump_exclude_none p =
     (case date p of None \<Rightarrow> [] | Some s \<Rightarrow> [(''date'', Str s)]) @
     (case time p of None \<Rightarrow> [] | Some s \<Rightarrow> [(''time'', Str s)]) @
     (case quantity p of None \<Rightarrow> [] | Some x \<Rightarrow> [(''quantity'', Num x)]) @
     (case amount p of None \<Rightarrow> [] | Some x \<Rightarrow> [(''amount'', Num x)])"

text \<open>
  \<^verbatim>\<open>update_entry\<close> (\<^verbatim>\<open>PUT /api/entries/{entry_id}\<close>). \<open>now\<close> is the reading of the
  clock taken by \<^verbatim>\<open>datetime.now(timezone.utc)\<close>. The result pairs the response (or the
  exception raised) with the store afterwards.
\<close>

definition update_entry ::
  "database \<Rightarrow> datetime \<Rightarrow> string \<Rightarrow> CurdEntryUpdate \<Rightarrow>
   (error + (string \<times> val) list option) \<times> database" where
  "update_entry db now entry_id payload =
     (case db of
        None \<Rightarrow> (Inl (HTTPException 503 ''Database not available''), db)
      | Some coll \<Rightarrow>
          (case ObjectId entry_id of
             Inl e \<Rightarrow> (Inl (HTTPException 400 ''Invalid id''), db)
           | Inr i \<Rightarrow>
               let updates = model_dump_exclude_none payload in
               if updates = [] then
                 (case find_one coll i of
                    None \<Rightarrow> (Inl (HTTPException 404 ''Not found''), db)
                  | Some doc \<Rightarrow>
                      if falsy doc then (Inl (HTTPException 404 ''Not found''), db)
                      else (Inr (serialize (Some doc)), db))
               else
                 let updates' = AList.update ''updated_at'' (Time now) updates;
                     res = update_one coll i updates'
                 in if fst res = 0 then (Inl (HTTPException 404 ''Not found''), Some (snd res))
                    else (Inr (serialize (find_one (snd res) i)), Some (snd res))))"

text \<open>\<^verbatim>\<open>delete_entry\<close> (\<^verbatim>\<open>DELETE /api/entries/{entry_id}\<close>); the response is
  \<^verbatim>\<open>{"ok": True}\<close>.\<close>

definition delete_entry :: "database \<Rightarrow> string \<Rightarrow> (error + (string \<times> bool) list) \<times> database" where
  "delete_entry db entry_id =
     (case db of
        None \<Rightarrow> (Inl (HTTPException 503 ''Database not available''), db)
      | Some coll \<Rightarrow>
          (case ObjectId entry_id of
             Inl e \<Rightarrow> (Inl (HTTPException 400 ''Invalid id''), db)
           | Inr i \<Rightarrow>
               let res = delete_one coll i
               in if fst res = 0 then (Inl (HTTPException 404 ''Not found''), Some (snd res))
                  else (Inr [(''ok'', True)], Some (snd res))))"

text \<open>
  Modelled from the spec: the class \<^verbatim>\<open>CurdEntry\<close> of \<^verbatim>\<open>schemas.py\<close>, which is not
  among the sources. The spec gives the create payload the required fields \<^verbatim>\<open>date\<close>,
  \<^verbatim>\<open>time\<close> (strings), \<^verbatim>\<open>quantity\<close> and \<^verbatim>\<open>amount\<close> (numbers). The field names carry a
  prefix here, since \<^verbatim>\<open>CurdEntryUpdate\<close> has the plain ones.
\<close>

record CurdEntry =
  entry_date :: string
  entry_time :: string
  entry_quantity :: rat
  entry_amount :: rat

definition model_dump :: "CurdEntry \<Rightarrow> (string \<times> val) list" where
  "model_dump e =
     [(''date'', Str (entry_date e)), (''time'', Str (entry_time e)),
      (''quantity'', Num (entry_quantity e)), (''amount'', Num (entry_amount e))]"

text \<open>
  Modelled from the spec: \<^verbatim>\<open>create_document\<close> of \<^verbatim>\<open>database.py\<close>, which is not among
  the sources. By the spec it inserts a new document made of the payload's fields,
  stamps \<^verbatim>\<open>created_at\<close> at insertion time (\<^verbatim>\<open>updated_at\<close> is absent until the first
  update) and yields the identifier the store assigned, which \<^verbatim>\<open>create_entry\<close> passes
  to \<^verbatim>\<open>ObjectId\<close>: the identifier is returned as its string.
\<close>

definition create_document ::
  "collection \<Rightarrow> datetime \<Rightarrow> oid \<Rightarrow> CurdEntry \<Rightarrow> error + (string \<times> collection)" where
  "create_document coll now new_id entry =
     (case insert_one coll new_id (model_dump entry @ [(''created_at'', Time now)]) of
        Inl e \<Rightarrow> Inl e
      | Inr (i, coll') \<Rightarrow> Inr (str_oid i, coll'))"

text \<open>
  \<^verbatim>\<open>create_entry\<close> (\<^verbatim>\<open>POST /api/entries\<close>). \<open>now\<close> is the clock at insertion and
  \<open>new_id\<close> the identifier the driver generates. Only the first check raises an
  \<^verbatim>\<open>HTTPException\<close>; any other exception leaves the handler as it is.
\<close>

definition create_entry ::
  "database \<Rightarrow> datetime \<Rightarrow> oid \<Rightarrow> CurdEntry \<Rightarrow>
   (error + (string \<times> val) list option) \<times> database" where
  "create_entry db now new_id entry =
     (case db of
        None \<Rightarrow> (Inl (HTTPException 503 ''Database not available''), db)
      | Some coll \<Rightarrow>
          (case create_document coll now new_id entry of
             Inl e \<Rightarrow> (Inl e, db)
           | Inr (sid, coll') \<Rightarrow>
               (case ObjectId sid of
                  Inl e \<Rightarrow> (Inl e, Some coll')
                | Inr i \<Rightarrow> (Inr (serialize (find_one coll' i)), Some coll'))))"

text \<open>
  The body of an update request, before the framework builds the \<^verbatim>\<open>CurdEntryUpdate\<close>
  from it: each of the four keys is absent, \<^verbatim>\<open>null\<close>, or carries a value. A field
  declared \<^verbatim>\<open>Optional[...] = None\<close> is \<^verbatim>\<open>None\<close> in the first two cases.
\<close>

datatype 'a body_field = Omitted | Null | Given 'a

fun field_value :: "'a body_field \<Rightarrow> 'a option" where
  "field_value Omitted = None"
| "field_value Null = None"
| "field_value (Given x) = Some x"

record update_body =
  body_date :: "string body_field"
  body_time :: "string body_field"
  body_quantity :: "rat body_field"
  body_amount :: "rat body_field"

definition parse_update :: "update_body \<Rightarrow> CurdEntryUpdate" where
  "parse_update b =
     \<lparr>date = field_value (body_date b), time = field_value (body_time b),
      quantity = field_value (body_quantity b), amount = field_value (body_amount b)\<rparr>"

text \<open>The same body with every \<^verbatim>\<open>null\<close> key left out.\<close>

fun omit_null :: "'a body_field \<Rightarrow> 'a body_field" where
  "omit_null Null = Omitted"
| "omit_null f = f"

definition omit_nulls :: "update_body \<Rightarrow> update_body" where
  "omit_nulls b =
     \<lparr>body_date = omit_null (body_date b), body_time = omit_null (body_time b),
      body_quantity = omit_null (body_quantity b), body_amount = omit_null (body_amount b)\<rparr>"

section \<open>The status report\<close>

record status =
  backend :: string
  database :: string
  database_url :: string
  database_name :: string
  connection_status :: string
  collections :: "string list"

text \<open>U+2705 and U+274C in UTF-8.\<close>

definition check_mark :: string where
  "check_mark = [CHR 0xE2, CHR 0x9C, CHR 0x85]"

definition cross_mark :: string where
  "cross_mark = [CHR 0xE2, CHR 0x9D, CHR 0x8C]"

text \<open>
  \<^verbatim>\<open>s[:n]\<close> counts characters, not bytes: a byte \<open>10xxxxxx\<close> continues the character
  before it.
\<close>

definition continuation :: "char \<Rightarrow> bool" where
  "continuation c \<longleftrightarrow> 128 \<le> (of_char c :: nat) \<and> (of_char c :: nat) < 192"

fun take_chars :: "nat \<Rightarrow> string \<Rightarrow> string" where
  "take_chars n [] = []"
| "take_chars n (c # cs) =
     (if continuation c then c # take_chars n cs
      else (case n of 0 \<Rightarrow> [] | Suc m \<Rightarrow> c # take_chars m cs))"

text \<open>\<^verbatim>\<open>os.getenv(name)\<close> as a condition: set and not empty.\<close>

definition truthy :: "string option \<Rightarrow> bool" where
  "truthy v = (case v of None \<Rightarrow> False | Some s \<Rightarrow> s \<noteq> [])"

text \<open>
  \<^verbatim>\<open>test_database\<close> (\<^verbatim>\<open>GET /test\<close>). \<open>url\<close> and \<open>name\<close> are the environment variables
  \<^verbatim>\<open>DATABASE_URL\<close> and \<^verbatim>\<open>DATABASE_NAME\<close>; \<open>probe\<close> is the outcome of
  \<^verbatim>\<open>db.list_collection_names()\<close>: the names, or \<open>Inl\<close> the text \<^verbatim>\<open>str(e)\<close> of the
  exception it raised.
\<close>

definition test_database ::
  "string option \<Rightarrow> string option \<Rightarrow> database \<Rightarrow> string + string list \<Rightarrow> status" where
  "test_database url name db probe =
     (let response =
            \<lparr>backend = check_mark @ '' Running'',
             database = cross_mark @ '' Not Available'',
             database_url = (if truthy url then check_mark @ '' Set''
                             else cross_mark @ '' Not Set''),
             database_name = (if truthy name then check_mark @ '' Set''
                              else cross_mark @ '' Not Set''),
             connection_status = ''Not Connected'',
             collections = []\<rparr>
      in case db of
           None \<Rightarrow> response
         | Some h \<Rightarrow>
             let response = response\<lparr>database := check_mark @ '' Available'',
                                     connection_status := ''Connected''\<rparr>
             in (case probe of
                   Inr names \<Rightarrow> response\<lparr>collections := names\<rparr>
                 | Inl msg \<Rightarrow>
                     response\<lparr>database := cross_mark @ '' Error: '' @ take_chars 80 msg\<rparr>))"

section \<open>Example data\<close>

definition example_now :: datetime where
  "example_now = \<lparr>year = 2024, month = 1, day = 3, hour = 12, minute = 30, second = 15,
                   microsecond = 123456\<rparr>"

definition example_id :: oid where
  "example_id = [0x65, 0xa1, 0xb2, 0xc3, 0xd4, 0xe5, 0xf6, 0x07, 0x18, 0x29, 0x3a, 0x4b]"

definition other_id :: oid where
  "other_id = [0x65, 0xa1, 0xb2, 0xc3, 0xd4, 0xe5, 0xf6, 0x07, 0x18, 0x29, 0x3a, 0x4c]"


definition example_doc :: document where
  "example_doc =
     \<lparr>doc_id = Some example_id,
      doc_fields = [(''date'', Str ''2024-01-02''), (''time'', Str ''08:00''),
                    (''quantity'', Num 2), (''amount'', Num 90),
                    (''created_at'', Time \<lparr>year = 2024, month = 1, day = 2, hour = 8,
                       minute = 0, second = 1, microsecond = 250000\<rparr>)]\<rparr>"

definition quantity_5 :: CurdEntryUpdate where
  "quantity_5 = \<lparr>date = None, time = None, quantity = Some 5, amount = None\<rparr>"

definition body_with_null :: update_body where
  "body_with_null =
     \<lparr>body_date = Given ''2024-02-01'', body_time = Omitted, body_quantity = Null,
      body_amount = Omitted\<rparr>"

definition body_without :: update_body where
  "body_without =
     \<lparr>body_date = Given ''2024-02-01'', body_time = Omitted, body_quantity = Omitted,
      body_amount = Omitted\<rparr>"

text \<open>The three entries of the listing example.\<close>

definition entry_0101_0900 :: document where
  "entry_0101_0900 =
     \<lparr>doc_id = Some [0x65, 0xa1, 0xb2, 0xc3, 0xd4, 0xe5, 0xf6, 0x07, 0x18, 0x29, 0x3a, 0x01],
      doc_fields = [(''date'', Str ''2024-01-01''), (''time'', Str ''09:00''),
                    (''quantity'', Num 1), (''amount'', Num 45)]\<rparr>"

definition entry_0102_0800 :: document where
  "entry_0102_0800 =
     \<lparr>doc_id = Some [0x65, 0xa1, 0xb2, 0xc3, 0xd4, 0xe5, 0xf6, 0x07, 0x18, 0x29, 0x3a, 0x02],
      doc_fields = [(''date'', Str ''2024-01-02''), (''time'', Str ''08:00''),
                    (''quantity'', Num 2), (''amount'', Num 90)]\<rparr>"

definition entry_0102_1000 :: document where
  "entry_0102_1000 =
     \<lparr>doc_id = Some [0x65, 0xa1, 0xb2, 0xc3, 0xd4, 0xe5, 0xf6, 0x07, 0x18, 0x29, 0x3a, 0x03],
      doc_fields = [(''date'', Str ''2024-01-02''), (''time'', Str ''10:00''),
                    (''quantity'', Num 3), (''amount'', Num 135)]\<rparr>"

definition example_entry :: CurdEntry where
  "example_entry =
     \<lparr>entry_date = ''2024-01-03'', entry_time = ''12:30'', entry_quantity = 5 / 2,
      entry_amount = 120\<rparr>"

definition probe_message :: string where
  "probe_message =
     ''localhost:27017: [Errno 111] Connection refused (configured timeouts: '' @
     ''socketTimeoutMS: 20000.0ms, connectTimeoutMS: 20000.0ms)''"

definition empty_payload :: CurdEntryUpdate where
  "empty_payload = \<lparr>date = None, time = None, quantity = None, amount = None\<rparr>"

section \<open>Facts about the store\<close>

lemma find_one_Nil: "find_one [] i = None"
  by (simp add: find_one_def)

lemma find_one_Cons:
  "find_one (d # ds) i = (if doc_id d = Some i then Some d else find_one ds i)"
  by (simp add: find_one_def)

lemma find_one_doc_id: "find_one coll i = Some d \<Longrightarrow> doc_id d = Some i"
  by (auto simp: find_one_def find_Some_iff)

lemma find_one_mem: "find_one coll i = Some d \<Longrightarrow> d \<in> set coll"
  by (auto simp: find_one_def find_Some_iff)

lemma update_one_absent: "find_one coll i = None \<Longrightarrow> update_one coll i us = (0, coll)"
  by (induction coll) (auto simp: find_one_Cons split: if_splits)


lemma update_one_present:
  "find_one coll i = Some d \<Longrightarrow>
   \<exists>n. n < length coll \<and> coll ! n = d \<and>
       update_one coll i us = (1, coll[n := d\<lparr>doc_fields := set_fields us (doc_fields d)\<rparr>]) \<and>
       find_one (coll[n := d\<lparr>doc_fields := set_fields us (doc_fields d)\<rparr>]) i =
         Some (d\<lparr>doc_fields := set_fields us (doc_fields d)\<rparr>)"
proof (induction coll)
  case Nil
  then show ?case by (simp add: find_one_Nil)
next
  case (Cons c cs)
  show ?case
  proof (cases "doc_id c = Some i")
    case True
    with Cons.prems have "c = d" by (simp add: find_one_Cons)
    with True show ?thesis
      by (intro exI[of _ 0]) (simp add: find_one_Cons)
  next
    case False
    with Cons.prems have "find_one cs i = Some d" by (simp add: find_one_Cons)
    from Cons.IH[OF this] obtain n where
      n: "n < length cs" "cs ! n = d"
         "update_one cs i us = (1, cs[n := d\<lparr>doc_fields := set_fields us (doc_fields d)\<rparr>])"
         "find_one (cs[n := d\<lparr>doc_fields := set_fields us (doc_fields d)\<rparr>]) i =
            Some (d\<lparr>doc_fields := set_fields us (doc_fields d)\<rparr>)"
      by blast
    with False show ?thesis
      by (intro exI[of _ "Suc n"]) (simp add: find_one_Cons)
  qed
qed

lemma ObjectId_short: "ObjectId ''12345'' = Inl InvalidId"
  by (simp add: ObjectId_def)

lemma ObjectId_example: "ObjectId ''65a1b2c3d4e5f60718293a4b'' = Inr example_id"
  by (simp add: ObjectId_def hex_value_def isspace_def example_id_def)


lemma find_one_other: "find_one [example_doc] other_id = None"
  by (simp add: find_one_def example_doc_def example_id_def other_id_def)

lemma find_one_example: "find_one [example_doc] example_id = Some example_doc"
  by (simp add: find_one_def example_doc_def)





text \<open>Identifiers survive the round trip through their string.\<close>

lemma hex_value_hex_digit: "n < 16 \<Longrightarrow> hex_value (hex_digit n) = Some n"
proof -
  assume "n < 16"
  then have "n \<in> set (upt 0 16)" by simp
  moreover have "list_all (\<lambda>m. hex_value (hex_digit m) = Some m) (upt 0 16)"
    by code_simp
  ultimately show ?thesis
    by (simp only: list_all_iff)
qed

lemma hex_digit_not_space: "\<not> isspace (hex_digit n)"
proof -
  have "n mod 16 \<in> set (upt 0 16)" by simp
  moreover have "list_all (\<lambda>m. \<not> isspace (hex_digit m)) (upt 0 16)"
    by code_simp
  ultimately have "\<not> isspace (hex_digit (n mod 16))"
    unfolding list_all_iff by blast
  then show ?thesis by (simp add: hex_digit_def)
qed

lemma fromhex_hexlify: "fromhex (hexlify bs) = Some bs"
proof (induction bs)
  case Nil
  show ?case by (simp add: hexlify_def)
next
  case (Cons b bs)
  have lt: "unat b div 16 < 16"
    using unsigned_less[of b, where 'a = nat] by (simp add: less_mult_imp_div_less)
  have "(of_nat (16 * (unat b div 16) + unat b mod 16) :: 8 word) = b"
    by (simp add: mult_div_mod_eq)
  moreover have "hexlify (b # bs) =
      hex_digit (unat b div 16) # hex_digit (unat b mod 16) # hexlify bs"
    by (simp add: hexlify_def)
  ultimately show ?case
    using Cons.IH lt by (simp add: hex_value_hex_digit hex_digit_not_space)
qed







lemma length_hexlify: "length (hexlify bs) = 2 * length bs"
  by (induction bs) (simp_all add: hexlify_def)

lemma ObjectId_str_oid: "length i = 12 \<Longrightarrow> ObjectId (str_oid i) = Inr i"
  by (simp add: ObjectId_def str_oid_def fromhex_hexlify length_hexlify)

lemma ObjectId_str_oid_Inr: "ObjectId (str_oid i) = Inr j \<Longrightarrow> j = i"
  by (simp add: ObjectId_def str_oid_def fromhex_hexlify split: if_splits)

lemma str_oid_example: "str_oid example_id = ''65a1b2c3d4e5f60718293a4b''"
  by (simp add: str_oid_def hexlify_def example_id_def hex_digit_def)

lemma serialize_example_doc:
  "serialize_dict example_doc =
     [(''date'', Str ''2024-01-02''), (''time'', Str ''08:00''),
      (''quantity'', Num 2), (''amount'', Num 90),
      (''created_at'', Str ''2024-01-02T08:00:01.250000''),
      (''id'', Str ''65a1b2c3d4e5f60718293a4b'')]"
  by (simp add: serialize_dict_def falsy_def iso_items_def example_doc_def str_oid_example
      isoformat_def pad2_def pad4_def pad6_def digit_def)


text \<open>The effect of \<^verbatim>\<open>$set\<close> and the two branches of \<^verbatim>\<open>update_entry\<close> on a matching document.\<close>

lemma map_of_set_fields:
  "map_of (set_fields us fs) k =
     (case map_of (rev us) k of None \<Rightarrow> map_of fs k | Some v \<Rightarrow> Some (to_bson v))"
proof (induction us arbitrary: fs)
  case Nil
  show ?case by simp
next
  case (Cons u us)
  obtain k' v where u: "u = (k', v)" by (cases u)
  show ?case
    by (simp add: u Cons.IH update_conv map_add_def split: option.splits)
qed

lemma map_of_rev_distinct: "distinct (map fst al) \<Longrightarrow> map_of (rev al) k = map_of al k"
proof (induction al)
  case Nil
  show ?case by simp
next
  case (Cons a al)
  obtain x y where a: "a = (x, y)" by (cases a)
  from Cons.prems have "x \<notin> fst ` set al" and "distinct (map fst al)" by (simp_all add: a)
  then have "map_of al x = None" and "map_of (rev al) k = map_of al k"
    by (simp_all add: map_of_eq_None_iff Cons.IH)
  then show ?case
    by (simp add: a map_add_def split: option.splits)
qed

lemma distinct_model_dump: "distinct (map fst (model_dump_exclude_none p))"
  by (simp add: model_dump_exclude_none_def split: option.splits)

lemma map_of_updates:
  "map_of (AList.update ''updated_at'' (Time now) (model_dump_exclude_none p)) k =
     (if k = ''updated_at'' then Some (Time now)
      else if k = ''date'' then map_option Str (date p)
      else if k = ''time'' then map_option Str (time p)
      else if k = ''quantity'' then map_option Num (quantity p)
      else if k = ''amount'' then map_option Num (amount p)
      else None)"
  by (simp add: update_conv model_dump_exclude_none_def map_add_def split: option.splits)

lemma map_of_rev_updates:
  "map_of (rev (AList.update ''updated_at'' (Time now) (model_dump_exclude_none p))) =
   map_of (AList.update ''updated_at'' (Time now) (model_dump_exclude_none p))"
  by (rule ext, rule map_of_rev_distinct) (simp add: distinct_update distinct_model_dump)

lemma model_dump_empty:
  "model_dump_exclude_none p = [] \<longleftrightarrow>
     date p = None \<and> time p = None \<and> quantity p = None \<and> amount p = None"
  by (simp add: model_dump_exclude_none_def split: option.splits)

lemma update_entry_present:
  assumes "ObjectId entry_id = Inr i" and "find_one coll i = Some doc"
    and "model_dump_exclude_none payload \<noteq> []"
  shows "\<exists>n. n < length coll \<and> coll ! n = doc \<and>
     update_entry (Some coll) now entry_id payload =
       (Inr (Some (serialize_dict
          (doc\<lparr>doc_fields := set_fields
             (AList.update ''updated_at'' (Time now) (model_dump_exclude_none payload))
             (doc_fields doc)\<rparr>))),
        Some (coll[n := doc\<lparr>doc_fields := set_fields
             (AList.update ''updated_at'' (Time now) (model_dump_exclude_none payload))
             (doc_fields doc)\<rparr>])) \<and>
     find_one (coll[n := doc\<lparr>doc_fields := set_fields
             (AList.update ''updated_at'' (Time now) (model_dump_exclude_none payload))
             (doc_fields doc)\<rparr>]) i =
       Some (doc\<lparr>doc_fields := set_fields
             (AList.update ''updated_at'' (Time now) (model_dump_exclude_none payload))
             (doc_fields doc)\<rparr>)"
proof -
  from update_one_present[OF assms(2), of "AList.update ''updated_at'' (Time now) (model_dump_exclude_none payload)"]
  obtain n where n: "n < length coll" "coll ! n = doc"
    "update_one coll i (AList.update ''updated_at'' (Time now) (model_dump_exclude_none payload)) =
       (1, coll[n := doc\<lparr>doc_fields := set_fields
             (AList.update ''updated_at'' (Time now) (model_dump_exclude_none payload))
             (doc_fields doc)\<rparr>])"
    "find_one (coll[n := doc\<lparr>doc_fields := set_fields
             (AList.update ''updated_at'' (Time now) (model_dump_exclude_none payload))
             (doc_fields doc)\<rparr>]) i =
       Some (doc\<lparr>doc_fields := set_fields
             (AList.update ''updated_at'' (Time now) (model_dump_exclude_none payload))
             (doc_fields doc)\<rparr>)"
    by blast
  show ?thesis
    using assms(1,3) n
    by (intro exI[of _ n]) (simp add: update_entry_def Let_def serialize_def)
qed

lemma update_entry_empty:
  assumes "ObjectId entry_id = Inr i" and "model_dump_exclude_none payload = []"
  shows "update_entry (Some coll) now entry_id payload =
     ((case find_one coll i of
         None \<Rightarrow> Inl (HTTPException 404 ''Not found'')
       | Some doc \<Rightarrow> Inr (Some (serialize_dict doc))), Some coll)"
proof (cases "find_one coll i")
  case None
  with assms show ?thesis by (simp add: update_entry_def)
next
  case (Some doc)
  then have "\<not> falsy doc" by (auto simp: falsy_def dest: find_one_doc_id)
  with assms Some show ?thesis by (simp add: update_entry_def serialize_def)
qed


text \<open>Request bodies: a \<^verbatim>\<open>null\<close> key parses like an absent one.\<close>

lemma field_value_omit_null: "field_value (omit_null f) = field_value f"
  by (cases f) simp_all

lemma parse_update_omit_nulls: "parse_update (omit_nulls b) = parse_update b"
  by (simp add: parse_update_def omit_nulls_def field_value_omit_null)

lemma update_entry_keeps_unsupplied:
  assumes "ObjectId entry_id = Inr i" and "find_one coll i = Some doc"
  shows "\<exists>coll' doc'. snd (update_entry (Some coll) now entry_id payload) = Some coll' \<and>
     find_one coll' i = Some doc' \<and>
     (\<forall>k. k \<noteq> ''updated_at'' \<and> map_of (model_dump_exclude_none payload) k = None \<longrightarrow>
        map_of (doc_fields doc') k = map_of (doc_fields doc) k)"
proof (cases "model_dump_exclude_none payload = []")
  case True
  from update_entry_empty[OF assms(1) True, of coll now] assms(2) show ?thesis
    by simp
next
  case False
  let ?us = "AList.update ''updated_at'' (Time now) (model_dump_exclude_none payload)"
  let ?doc' = "doc\<lparr>doc_fields := set_fields ?us (doc_fields doc)\<rparr>"
  from update_entry_present[OF assms False, of now] obtain n where
    n: "update_entry (Some coll) now entry_id payload =
          (Inr (Some (serialize_dict ?doc')), Some (coll[n := ?doc']))"
       "find_one (coll[n := ?doc']) i = Some ?doc'"
    by blast
  have "\<forall>k. k \<noteq> ''updated_at'' \<and> map_of (model_dump_exclude_none payload) k = None \<longrightarrow>
        map_of (doc_fields ?doc') k = map_of (doc_fields doc) k"
    by (simp add: map_of_set_fields map_of_rev_updates update_conv)
  with n show ?thesis by auto
qed

lemma map_of_model_dump:
  "map_of (model_dump_exclude_none p) ''date'' = map_option Str (date p)"
  "map_of (model_dump_exclude_none p) ''time'' = map_option Str (time p)"
  "map_of (model_dump_exclude_none p) ''quantity'' = map_option Num (quantity p)"
  "map_of (model_dump_exclude_none p) ''amount'' = map_option Num (amount p)"
  by (simp_all add: model_dump_exclude_none_def map_add_def split: option.splits)


text \<open>Insertion and the rendering of items.\<close>

lemma find_one_append:
  "find_one coll i = None \<Longrightarrow>
   find_one (coll @ [d]) i = (if doc_id d = Some i then Some d else None)"
  by (induction coll) (auto simp: find_one_Nil find_one_Cons split: if_splits)

lemma map_of_iso_items: "map_of (iso_items d) k = map_option iso_value (map_of d k)"
  by (induction d) (auto simp: iso_items_def)

lemma iso_value_not_Time: "iso_value v \<noteq> Time t"
  by (cases v) simp_all

lemma create_entry_fresh:
  assumes "length new_id = 12" and "find_one coll new_id = None"
  shows "create_entry (Some coll) now new_id entry =
     (Inr (Some (serialize_dict
        \<lparr>doc_id = Some new_id,
         doc_fields = map (\<lambda>(k, v). (k, to_bson v))
                        (model_dump entry @ [(''created_at'', Time now)])\<rparr>)),
      Some (coll @ [\<lparr>doc_id = Some new_id,
         doc_fields = map (\<lambda>(k, v). (k, to_bson v))
                        (model_dump entry @ [(''created_at'', Time now)])\<rparr>]))"
  using assms
  by (simp add: create_entry_def create_document_def insert_one_def ObjectId_str_oid
      find_one_append serialize_def)

lemma str_oid_other: "str_oid other_id = ''65a1b2c3d4e5f60718293a4c''"
  by (simp add: str_oid_def hexlify_def other_id_def hex_digit_def)


text \<open>The sorted cursor.\<close>

lemma find_sorted_desc:
  "sorted_wrt (\<lambda>a b. (date_key b, time_key b) \<le> (date_key a, time_key a)) (find_sorted coll)"
proof -
  have "sorted (map (\<lambda>d. (date_key d, time_key d))
          (sort_key (\<lambda>d. (date_key d, time_key d)) coll))"
    by (rule sorted_sort_key)
  then have "sorted_wrt (\<lambda>a b. (date_key a, time_key a) \<le> (date_key b, time_key b))
          (sort_key (\<lambda>d. (date_key d, time_key d)) coll)"
    by (simp add: sorted_wrt_map)
  then show ?thesis
    by (simp add: find_sorted_def sorted_wrt_rev)
qed

lemma mset_find_sorted: "mset (find_sorted coll) = mset coll"
  by (simp add: find_sorted_def)

lemma set_find_sorted: "set (find_sorted coll) = set coll"
  by (simp add: find_sorted_def)

lemma pair_le_iff:
  fixes a b :: "'a::linorder" and c d :: "'b::linorder"
  shows "(a, c) \<le> (b, d) \<longleftrightarrow> a < b \<or> (a = b \<and> c \<le> d)"
  by auto

lemma bson_key_Str_less: "bson_key (Some (Str s)) < bson_key (Some (Str t)) \<longleftrightarrow> s < t"
  by auto

lemma bson_key_Str_le: "bson_key (Some (Str s)) \<le> bson_key (Some (Str t)) \<longleftrightarrow> s \<le> t"
  by auto

lemma bson_key_Str_eq: "bson_key (Some (Str s)) = bson_key (Some (Str t)) \<longleftrightarrow> s = t"
  by auto

lemma serialize_dict_Str:
  assumes "map_of (doc_fields d) k = Some (Str s)" and "k \<noteq> ''id''"
  shows "map_of (serialize_dict d) k = Some (Str s)"
proof -
  from assms(1) have "doc_fields d \<noteq> []" by auto
  with assms show ?thesis
    by (auto simp: serialize_dict_def falsy_def map_of_iso_items update_conv
        split: option.splits)
qed


lemma example_keys:
  "(date_key entry_0101_0900, time_key entry_0101_0900) <
   (date_key entry_0102_0800, time_key entry_0102_0800)"
  "(date_key entry_0102_0800, time_key entry_0102_0800) <
   (date_key entry_0102_1000, time_key entry_0102_1000)"
  by (simp_all add: date_key_def time_key_def entry_0101_0900_def entry_0102_0800_def
      entry_0102_1000_def)

lemma sort_key_three:
  fixes f :: "'a \<Rightarrow> 'k::linorder"
  assumes "mset xs = {#x, y, z#}" and "f x < f y" and "f y < f z"
  shows "sort_key f xs = [x, y, z]"
proof -
  from assms(2,3) have xz: "f x < f z" by (rule less_trans)
  have m: "mset [x, y, z] = mset xs" using assms(1) by simp
  show ?thesis
  proof (rule properties_for_sort_key[OF m])
    show "sorted (map f [x, y, z])"
      using assms(2,3) xz by (simp add: less_imp_le)
  next
    fix k assume "k \<in> set [x, y, z]"
    then have k: "k = x \<or> k = y \<or> k = z" by auto
    have one: "filter (\<lambda>u. f k = f u) [x, y, z] = [k]"
      using k assms(2,3) xz by auto
    have "mset (filter (\<lambda>u. f k = f u) xs) = mset (filter (\<lambda>u. f k = f u) [x, y, z])"
      unfolding mset_filter m[symmetric] ..
    then have "mset (filter (\<lambda>u. f k = f u) xs) = mset [k]"
      by (simp only: one)
    then have "mset (filter (\<lambda>u. f k = f u) xs) = {#k#}"
      by simp
    then have "filter (\<lambda>u. f k = f u) xs = [k]"
      by (simp only: mset_single_iff)
    with one show "filter (\<lambda>u. f k = f u) [x, y, z] = filter (\<lambda>u. f k = f u) xs"
      by simp
  qed
qed

lemma find_sorted_example:
  assumes "mset coll = {#entry_0101_0900, entry_0102_0800, entry_0102_1000#}"
  shows "find_sorted coll = [entry_0102_1000, entry_0102_0800, entry_0101_0900]"
  unfolding find_sorted_def
  by (subst sort_key_three[OF assms example_keys]) simp


lemma serialize_example_entries:
  "serialize_dict entry_0101_0900 =
     [(''date'', Str ''2024-01-01''), (''time'', Str ''09:00''), (''quantity'', Num 1),
      (''amount'', Num 45), (''id'', Str ''65a1b2c3d4e5f60718293a01'')]"
  "serialize_dict entry_0102_0800 =
     [(''date'', Str ''2024-01-02''), (''time'', Str ''08:00''), (''quantity'', Num 2),
      (''amount'', Num 90), (''id'', Str ''65a1b2c3d4e5f60718293a02'')]"
  "serialize_dict entry_0102_1000 =
     [(''date'', Str ''2024-01-02''), (''time'', Str ''10:00''), (''quantity'', Num 3),
      (''amount'', Num 135), (''id'', Str ''65a1b2c3d4e5f60718293a03'')]"
  by (simp_all add: serialize_dict_def falsy_def iso_items_def entry_0101_0900_def
      entry_0102_0800_def entry_0102_1000_def str_oid_def hexlify_def hex_digit_def)


text \<open>Truncation to a number of characters.\<close>

lemma take_chars_prefix: "\<exists>rest. s = take_chars n s @ rest"
proof (induction s arbitrary: n)
  case Nil
  show ?case by simp
next
  case (Cons c cs)
  show ?case
  proof (cases "continuation c")
    case True
    with Cons.IH[of n] show ?thesis by simp
  next
    case False
    show ?thesis
    proof (cases n)
      case 0
      with False show ?thesis by simp
    next
      case (Suc m)
      with False Cons.IH[of m] show ?thesis by simp
    qed
  qed
qed

lemma take_chars_count: "length (filter (\<lambda>c. \<not> continuation c) (take_chars n s)) \<le> n"
proof (induction s arbitrary: n)
  case Nil
  show ?case by simp
next
  case (Cons c cs)
  show ?case
  proof (cases "continuation c")
    case True
    with Cons.IH[of n] show ?thesis by simp
  next
    case False
    show ?thesis
    proof (cases n)
      case 0
      with False show ?thesis by simp
    next
      case (Suc m)
      with False Cons.IH[of m] show ?thesis by simp
    qed
  qed
qed

lemma take_chars_ascii: "\<forall>c\<in>set s. \<not> continuation c \<Longrightarrow> take_chars n s = take n s"
proof (induction s arbitrary: n)
  case Nil
  show ?case by simp
next
  case (Cons c cs)
  then show ?case by (cases n) simp_all
qed

lemma probe_message_ascii: "\<forall>c\<in>set probe_message. \<not> continuation c"
  by (simp add: probe_message_def continuation_def)


section \<open>Error handling of update and delete\<close>




text \<open>
  C10: without a store handle both update and delete fail with \<^verbatim>\<open>503\<close> whatever the
  identifier is, malformed ones included, and a \<^verbatim>\<open>400\<close> from either of them means that
  the store handle was there.
\<close>

theorem store_check_precedes_id_check:
  "update_entry None now entry_id payload =
     (Inl (HTTPException 503 ''Database not available''), None) \<and>
   delete_entry None entry_id = (Inl (HTTPException 503 ''Database not available''), None) \<and>
   (\<forall>db msg. fst (update_entry db now entry_id payload) = Inl (HTTPException 400 msg)
      \<longrightarrow> db \<noteq> None) \<and>
   (\<forall>db msg. fst (delete_entry db entry_id) = Inl (HTTPException 400 msg) \<longrightarrow> db \<noteq> None)"
proof (intro conjI allI impI)
  show "update_entry None now entry_id payload =
          (Inl (HTTPException 503 ''Database not available''), None)"
    by (simp add: update_entry_def)
  show "delete_entry None entry_id = (Inl (HTTPException 503 ''Database not available''), None)"
    by (simp add: delete_entry_def)
next
  fix db msg
  assume "fst (update_entry db now entry_id payload) = Inl (HTTPException 400 msg)"
  then show "db \<noteq> None"
    by (cases db) (simp_all add: update_entry_def)
next
  fix db msg
  assume "fst (delete_entry db entry_id) = Inl (HTTPException 400 msg)"
  then show "db \<noteq> None"
    by (cases db) (simp_all add: delete_entry_def)
qed

theorem store_check_precedes_id_check_witness:
  "fst (update_entry (Some [example_doc]) example_now ''12345'' quantity_5) =
     Inl (HTTPException 400 ''Invalid id'') \<and>
   fst (delete_entry (Some [example_doc]) ''12345'') = Inl (HTTPException 400 ''Invalid id'') \<and>
   Some [example_doc] \<noteq> None \<and>
   update_entry None example_now ''12345'' quantity_5 =
     (Inl (HTTPException 503 ''Database not available''), None) \<and>
   delete_entry None ''12345'' = (Inl (HTTPException 503 ''Database not available''), None)"
  using store_check_precedes_id_check [of example_now "''12345''" quantity_5]
  by (simp add: update_entry_def delete_entry_def ObjectId_short)

section \<open>Listing\<close>

text \<open>
  C7: without a store handle the list operation returns the empty sequence; it has no
  failing branch at all.
\<close>

theorem list_entries_unavailable: "list_entries None = []"
  by (simp add: list_entries_def)

text \<open>
  C2: with a store handle the list operation returns the serialization of every stored
  document, each once, in the order of the sorted cursor: an entry comes before another
  only if its \<^verbatim>\<open>date\<close> is greater, or equal with a \<^verbatim>\<open>time\<close> at least as great. When
  \<^verbatim>\<open>date\<close> and \<^verbatim>\<open>time\<close> are strings in every document, as the data model has them, that
  is the order of the strings in the returned entries themselves. The three entries of
  the example come back as 2024-01-02/10:00, 2024-01-02/08:00, 2024-01-01/09:00 in
  whatever order they are stored.
\<close>

theorem list_entries_sorted:
  "list_entries (Some coll) = map serialize_dict (find_sorted coll) \<and>
   mset (list_entries (Some coll)) = image_mset serialize_dict (mset coll) \<and>
   sorted_wrt (\<lambda>a b. date_key b < date_key a \<or> (date_key b = date_key a \<and> time_key b \<le> time_key a))
     (find_sorted coll) \<and>
   ((\<forall>d\<in>set coll. \<exists>s t. map_of (doc_fields d) ''date'' = Some (Str s) \<and>
                           map_of (doc_fields d) ''time'' = Some (Str t)) \<longrightarrow>
    sorted_wrt
      (\<lambda>a b. \<exists>s t s' t'.
         map_of a ''date'' = Some (Str s) \<and> map_of a ''time'' = Some (Str t) \<and>
         map_of b ''date'' = Some (Str s') \<and> map_of b ''time'' = Some (Str t') \<and>
         (s' < s \<or> (s' = s \<and> t' \<le> t)))
      (list_entries (Some coll))) \<and>
   (mset coll = {#entry_0101_0900, entry_0102_0800, entry_0102_1000#} \<longrightarrow>
    list_entries (Some coll) =
      [serialize_dict entry_0102_1000, serialize_dict entry_0102_0800,
       serialize_dict entry_0101_0900])"
proof (intro conjI impI)
  show l: "list_entries (Some coll) = map serialize_dict (find_sorted coll)"
    by (simp add: list_entries_def)
  show "mset (list_entries (Some coll)) = image_mset serialize_dict (mset coll)"
    by (simp add: l mset_find_sorted)
  show s: "sorted_wrt (\<lambda>a b. date_key b < date_key a \<or>
              (date_key b = date_key a \<and> time_key b \<le> time_key a)) (find_sorted coll)"
    using find_sorted_desc[of coll] by (simp only: pair_le_iff)
  {
    assume typed: "\<forall>d\<in>set coll. \<exists>s t. map_of (doc_fields d) ''date'' = Some (Str s) \<and>
                           map_of (doc_fields d) ''time'' = Some (Str t)"
    have "sorted_wrt
      (\<lambda>x y. \<exists>s t s' t'.
         map_of (serialize_dict x) ''date'' = Some (Str s) \<and>
         map_of (serialize_dict x) ''time'' = Some (Str t) \<and>
         map_of (serialize_dict y) ''date'' = Some (Str s') \<and>
         map_of (serialize_dict y) ''time'' = Some (Str t') \<and>
         (s' < s \<or> (s' = s \<and> t' \<le> t)))
      (find_sorted coll)"
    proof (rule sorted_wrt_mono_rel[OF _ s])
      fix x y
      assume x: "x \<in> set (find_sorted coll)" and y: "y \<in> set (find_sorted coll)"
        and r: "date_key y < date_key x \<or> (date_key y = date_key x \<and> time_key y \<le> time_key x)"
      from x typed obtain s t where
        xs: "map_of (doc_fields x) ''date'' = Some (Str s)"
            "map_of (doc_fields x) ''time'' = Some (Str t)"
        by (auto simp: set_find_sorted)
      from y typed obtain s' t' where
        ys: "map_of (doc_fields y) ''date'' = Some (Str s')"
            "map_of (doc_fields y) ''time'' = Some (Str t')"
        by (auto simp: set_find_sorted)
      from r have "s' < s \<or> (s' = s \<and> t' \<le> t)"
        unfolding date_key_def time_key_def xs ys
        by (simp only: bson_key_Str_less bson_key_Str_le bson_key_Str_eq)
      moreover have "map_of (serialize_dict x) ''date'' = Some (Str s)"
        "map_of (serialize_dict x) ''time'' = Some (Str t)"
        "map_of (serialize_dict y) ''date'' = Some (Str s')"
        "map_of (serialize_dict y) ''time'' = Some (Str t')"
        using xs ys by (simp_all add: serialize_dict_Str)
      ultimately show "\<exists>s t s' t'.
         map_of (serialize_dict x) ''date'' = Some (Str s) \<and>
         map_of (serialize_dict x) ''time'' = Some (Str t) \<and>
         map_of (serialize_dict y) ''date'' = Some (Str s') \<and>
         map_of (serialize_dict y) ''time'' = Some (Str t') \<and>
         (s' < s \<or> (s' = s \<and> t' \<le> t))"
        by blast
    qed
    then show "sorted_wrt
      (\<lambda>a b. \<exists>s t s' t'.
         map_of a ''date'' = Some (Str s) \<and> map_of a ''time'' = Some (Str t) \<and>
         map_of b ''date'' = Some (Str s') \<and> map_of b ''time'' = Some (Str t') \<and>
         (s' < s \<or> (s' = s \<and> t' \<le> t)))
      (list_entries (Some coll))"
      by (simp only: l sorted_wrt_map)
  }
  {
    assume "mset coll = {#entry_0101_0900, entry_0102_0800, entry_0102_1000#}"
    then show "list_entries (Some coll) =
      [serialize_dict entry_0102_1000, serialize_dict entry_0102_0800,
       serialize_dict entry_0101_0900]"
      by (simp add: l find_sorted_example)
  }
qed

theorem list_entries_sorted_witness:
  "map_of (doc_fields entry_0101_0900) ''date'' = Some (Str ''2024-01-01'') \<and>
   map_of (doc_fields entry_0101_0900) ''time'' = Some (Str ''09:00'') \<and>
   map_of (doc_fields entry_0102_0800) ''date'' = Some (Str ''2024-01-02'') \<and>
   map_of (doc_fields entry_0102_0800) ''time'' = Some (Str ''08:00'') \<and>
   map_of (doc_fields entry_0102_1000) ''date'' = Some (Str ''2024-01-02'') \<and>
   map_of (doc_fields entry_0102_1000) ''time'' = Some (Str ''10:00'') \<and>
   mset [entry_0101_0900, entry_0102_0800, entry_0102_1000] =
     {#entry_0101_0900, entry_0102_0800, entry_0102_1000#} \<and>
   list_entries (Some [entry_0101_0900, entry_0102_0800, entry_0102_1000]) =
     [[(''date'', Str ''2024-01-02''), (''time'', Str ''10:00''), (''quantity'', Num 3),
       (''amount'', Num 135), (''id'', Str ''65a1b2c3d4e5f60718293a03'')],
      [(''date'', Str ''2024-01-02''), (''time'', Str ''08:00''), (''quantity'', Num 2),
       (''amount'', Num 90), (''id'', Str ''65a1b2c3d4e5f60718293a02'')],
      [(''date'', Str ''2024-01-01''), (''time'', Str ''09:00''), (''quantity'', Num 1),
       (''amount'', Num 45), (''id'', Str ''65a1b2c3d4e5f60718293a01'')]]"
proof -
  have t: "map_of (doc_fields entry_0101_0900) ''date'' = Some (Str ''2024-01-01'')"
    "map_of (doc_fields entry_0101_0900) ''time'' = Some (Str ''09:00'')"
    "map_of (doc_fields entry_0102_0800) ''date'' = Some (Str ''2024-01-02'')"
    "map_of (doc_fields entry_0102_0800) ''time'' = Some (Str ''08:00'')"
    "map_of (doc_fields entry_0102_1000) ''date'' = Some (Str ''2024-01-02'')"
    "map_of (doc_fields entry_0102_1000) ''time'' = Some (Str ''10:00'')"
    by (simp_all add: entry_0101_0900_def entry_0102_0800_def entry_0102_1000_def)
  have m: "mset [entry_0101_0900, entry_0102_0800, entry_0102_1000] =
     {#entry_0101_0900, entry_0102_0800, entry_0102_1000#}"
    by simp
  from list_entries_sorted [of "[entry_0101_0900, entry_0102_0800, entry_0102_1000]"] m
  have "list_entries (Some [entry_0101_0900, entry_0102_0800, entry_0102_1000]) =
      [serialize_dict entry_0102_1000, serialize_dict entry_0102_0800,
       serialize_dict entry_0101_0900]"
    by blast
  with t m show ?thesis
    by (simp only: serialize_example_entries simp_thms)
qed

section \<open>Partial update\<close>

text \<open>
  C1: an update with a non-empty payload on an existing entry rewrites that one document
  in place. In the document afterwards \<^verbatim>\<open>updated_at\<close> is the clock reading (as the store
  keeps it), each supplied field has the supplied value, each field not supplied and
  every other key (\<^verbatim>\<open>created_at\<close> among them) is as before, and so is \<^verbatim>\<open>_id\<close>. The
  response is the serialization of that document.
\<close>

theorem update_entry_changes_only_supplied:
  assumes "ObjectId entry_id = Inr i" and "find_one coll i = Some doc"
    and "model_dump_exclude_none payload \<noteq> []"
  shows "\<exists>n doc'. n < length coll \<and> coll ! n = doc \<and>
     update_entry (Some coll) now entry_id payload =
       (Inr (Some (serialize_dict doc')), Some (coll[n := doc'])) \<and>
     find_one (coll[n := doc']) i = Some doc' \<and>
     doc_id doc' = doc_id doc \<and>
     map_of (doc_fields doc') ''updated_at'' = Some (to_bson (Time now)) \<and>
     map_of (doc_fields doc') ''date'' =
       (case date payload of Some s \<Rightarrow> Some (Str s) | None \<Rightarrow> map_of (doc_fields doc) ''date'') \<and>
     map_of (doc_fields doc') ''time'' =
       (case time payload of Some s \<Rightarrow> Some (Str s) | None \<Rightarrow> map_of (doc_fields doc) ''time'') \<and>
     map_of (doc_fields doc') ''quantity'' =
       (case quantity payload of Some x \<Rightarrow> Some (Num x)
        | None \<Rightarrow> map_of (doc_fields doc) ''quantity'') \<and>
     map_of (doc_fields doc') ''amount'' =
       (case amount payload of Some x \<Rightarrow> Some (Num x)
        | None \<Rightarrow> map_of (doc_fields doc) ''amount'') \<and>
     (\<forall>k. k \<notin> {''updated_at'', ''date'', ''time'', ''quantity'', ''amount''} \<longrightarrow>
        map_of (doc_fields doc') k = map_of (doc_fields doc) k)"
proof -
  let ?us = "AList.update ''updated_at'' (Time now) (model_dump_exclude_none payload)"
  let ?doc' = "doc\<lparr>doc_fields := set_fields ?us (doc_fields doc)\<rparr>"
  from update_entry_present[OF assms, of now] obtain n where
    n: "n < length coll" "coll ! n = doc"
       "update_entry (Some coll) now entry_id payload =
          (Inr (Some (serialize_dict ?doc')), Some (coll[n := ?doc']))"
       "find_one (coll[n := ?doc']) i = Some ?doc'"
    by blast
  have look: "\<And>k. map_of (doc_fields ?doc') k =
      (case map_of ?us k of None \<Rightarrow> map_of (doc_fields doc) k | Some v \<Rightarrow> Some (to_bson v))"
    by (simp add: map_of_set_fields map_of_rev_updates)
  have "doc_id ?doc' = doc_id doc" by simp
  moreover have "map_of (doc_fields ?doc') ''updated_at'' = Some (to_bson (Time now))"
    unfolding look map_of_updates by simp
  moreover have "map_of (doc_fields ?doc') ''date'' =
       (case date payload of Some s \<Rightarrow> Some (Str s) | None \<Rightarrow> map_of (doc_fields doc) ''date'')"
    unfolding look map_of_updates by (simp split: option.splits)
  moreover have "map_of (doc_fields ?doc') ''time'' =
       (case time payload of Some s \<Rightarrow> Some (Str s) | None \<Rightarrow> map_of (doc_fields doc) ''time'')"
    unfolding look map_of_updates by (simp split: option.splits)
  moreover have "map_of (doc_fields ?doc') ''quantity'' =
       (case quantity payload of Some x \<Rightarrow> Some (Num x)
        | None \<Rightarrow> map_of (doc_fields doc) ''quantity'')"
    unfolding look map_of_updates by (simp split: option.splits)
  moreover have "map_of (doc_fields ?doc') ''amount'' =
       (case amount payload of Some x \<Rightarrow> Some (Num x)
        | None \<Rightarrow> map_of (doc_fields doc) ''amount'')"
    unfolding look map_of_updates by (simp split: option.splits)
  moreover have "\<forall>k. k \<notin> {''updated_at'', ''date'', ''time'', ''quantity'', ''amount''} \<longrightarrow>
        map_of (doc_fields ?doc') k = map_of (doc_fields doc) k"
    unfolding look map_of_updates by simp
  ultimately show ?thesis
    using n by blast
qed



theorem update_entry_changes_only_supplied_witness:
  "ObjectId ''65a1b2c3d4e5f60718293a4b'' = Inr example_id \<and>
   find_one [example_doc] example_id = Some example_doc \<and>
   model_dump_exclude_none quantity_5 \<noteq> [] \<and>
   update_entry (Some [example_doc]) example_now ''65a1b2c3d4e5f60718293a4b'' quantity_5 =
     (Inr (Some [(''date'', Str ''2024-01-02''), (''time'', Str ''08:00''),
                 (''quantity'', Num 5), (''amount'', Num 90),
                 (''created_at'', Str ''2024-01-02T08:00:01.250000''),
                 (''updated_at'', Str ''2024-01-03T12:30:15.123000''),
                 (''id'', Str ''65a1b2c3d4e5f60718293a4b'')]),
      Some [\<lparr>doc_id = Some example_id,
             doc_fields =
               [(''date'', Str ''2024-01-02''), (''time'', Str ''08:00''),
                (''quantity'', Num 5), (''amount'', Num 90),
                (''created_at'', Time \<lparr>year = 2024, month = 1, day = 2, hour = 8,
                   minute = 0, second = 1, microsecond = 250000\<rparr>),
                (''updated_at'', Time \<lparr>year = 2024, month = 1, day = 3, hour = 12,
                   minute = 30, second = 15, microsecond = 123000\<rparr>)]\<rparr>])"
proof -
  have h1: "ObjectId ''65a1b2c3d4e5f60718293a4b'' = Inr example_id"
    by (rule ObjectId_example)
  have h2: "find_one [example_doc] example_id = Some example_doc"
    by (rule find_one_example)
  have h3: "model_dump_exclude_none quantity_5 \<noteq> []"
    by (simp add: model_dump_exclude_none_def quantity_5_def)
  from update_entry_changes_only_supplied [OF h1 h2 h3, of example_now]
  obtain n doc' where
    r: "n < length [example_doc]"
       "update_entry (Some [example_doc]) example_now ''65a1b2c3d4e5f60718293a4b'' quantity_5 =
          (Inr (Some (serialize_dict doc')), Some ([example_doc][n := doc']))"
    by blast
  have e: "update_entry (Some [example_doc]) example_now ''65a1b2c3d4e5f60718293a4b'' quantity_5 =
     (Inr (Some [(''date'', Str ''2024-01-02''), (''time'', Str ''08:00''),
                 (''quantity'', Num 5), (''amount'', Num 90),
                 (''created_at'', Str ''2024-01-02T08:00:01.250000''),
                 (''updated_at'', Str ''2024-01-03T12:30:15.123000''),
                 (''id'', Str ''65a1b2c3d4e5f60718293a4b'')]),
      Some [\<lparr>doc_id = Some example_id,
             doc_fields =
               [(''date'', Str ''2024-01-02''), (''time'', Str ''08:00''),
                (''quantity'', Num 5), (''amount'', Num 90),
                (''created_at'', Time \<lparr>year = 2024, month = 1, day = 2, hour = 8,
                   minute = 0, second = 1, microsecond = 250000\<rparr>),
                (''updated_at'', Time \<lparr>year = 2024, month = 1, day = 3, hour = 12,
                   minute = 30, second = 15, microsecond = 123000\<rparr>)]\<rparr>])"
    by (simp add: update_entry_def ObjectId_example quantity_5_def model_dump_exclude_none_def
        example_doc_def example_now_def find_one_def serialize_def serialize_dict_def falsy_def
        iso_items_def str_oid_example isoformat_def pad2_def pad4_def pad6_def digit_def)
  from h1 h2 h3 e r show ?thesis by simp
qed


text \<open>
  C4: with a well-formed identifier and a payload whose four fields are all \<^verbatim>\<open>None\<close>,
  the store is left exactly as it was, \<^verbatim>\<open>updated_at\<close> included, and the response is the
  serialization of the matching document as stored, or \<^verbatim>\<open>404\<close> when there is none.
\<close>

theorem update_entry_empty_payload_noop:
  assumes "ObjectId entry_id = Inr i"
    and "date payload = None" and "time payload = None"
    and "quantity payload = None" and "amount payload = None"
  shows "update_entry (Some coll) now entry_id payload =
     ((case find_one coll i of
         None \<Rightarrow> Inl (HTTPException 404 ''Not found'')
       | Some doc \<Rightarrow> Inr (Some (serialize_dict doc))), Some coll)"
  using assms by (intro update_entry_empty) (simp_all add: model_dump_empty)

theorem update_entry_empty_payload_noop_witness:
  "ObjectId ''65a1b2c3d4e5f60718293a4b'' = Inr example_id \<and>
   date empty_payload = None \<and> time empty_payload = None \<and>
   quantity empty_payload = None \<and> amount empty_payload = None \<and>
   update_entry (Some [example_doc]) example_now ''65a1b2c3d4e5f60718293a4b'' empty_payload =
     (Inr (Some [(''date'', Str ''2024-01-02''), (''time'', Str ''08:00''),
                 (''quantity'', Num 2), (''amount'', Num 90),
                 (''created_at'', Str ''2024-01-02T08:00:01.250000''),
                 (''id'', Str ''65a1b2c3d4e5f60718293a4b'')]),
      Some [example_doc]) \<and>
   update_entry (Some []) example_now ''65a1b2c3d4e5f60718293a4b'' empty_payload =
     (Inl (HTTPException 404 ''Not found''), Some [])"
  using update_entry_empty_payload_noop
      [of "''65a1b2c3d4e5f60718293a4b''" example_id empty_payload "[example_doc]" example_now]
    update_entry_empty_payload_noop
      [of "''65a1b2c3d4e5f60718293a4b''" example_id empty_payload "[]" example_now]
  by (simp add: ObjectId_example empty_payload_def find_one_example find_one_Nil
      serialize_example_doc)


text \<open>
  C8: two request bodies that differ only in keys being \<^verbatim>\<open>null\<close> in one and absent in the
  other give the same response and the same store, for every store and identifier; and
  when the entry exists, each key that the body leaves out or sets to \<^verbatim>\<open>null\<close> has the
  same stored value after the update as before.
\<close>

theorem null_same_as_omitted:
  "(omit_nulls b = omit_nulls b' \<longrightarrow>
      update_entry db now entry_id (parse_update b) =
      update_entry db now entry_id (parse_update b')) \<and>
   (\<forall>coll i doc.
      db = Some coll \<and> ObjectId entry_id = Inr i \<and> find_one coll i = Some doc \<longrightarrow>
      (\<exists>coll' doc'.
         snd (update_entry db now entry_id (parse_update b)) = Some coll' \<and>
         find_one coll' i = Some doc' \<and>
         (body_date b \<in> {Omitted, Null} \<longrightarrow>
            map_of (doc_fields doc') ''date'' = map_of (doc_fields doc) ''date'') \<and>
         (body_time b \<in> {Omitted, Null} \<longrightarrow>
            map_of (doc_fields doc') ''time'' = map_of (doc_fields doc) ''time'') \<and>
         (body_quantity b \<in> {Omitted, Null} \<longrightarrow>
            map_of (doc_fields doc') ''quantity'' = map_of (doc_fields doc) ''quantity'') \<and>
         (body_amount b \<in> {Omitted, Null} \<longrightarrow>
            map_of (doc_fields doc') ''amount'' = map_of (doc_fields doc) ''amount'')))"
proof (intro conjI impI allI)
  assume "omit_nulls b = omit_nulls b'"
  then have "parse_update b = parse_update b'"
    using parse_update_omit_nulls[of b] parse_update_omit_nulls[of b'] by simp
  then show "update_entry db now entry_id (parse_update b) =
      update_entry db now entry_id (parse_update b')"
    by simp
next
  fix coll i doc
  assume a: "db = Some coll \<and> ObjectId entry_id = Inr i \<and> find_one coll i = Some doc"
  then have a1: "ObjectId entry_id = Inr i" and a2: "find_one coll i = Some doc" by simp_all
  from update_entry_keeps_unsupplied[OF a1 a2, of now "parse_update b"]
  obtain coll' doc' where
    c: "snd (update_entry (Some coll) now entry_id (parse_update b)) = Some coll'"
       "find_one coll' i = Some doc'"
       "\<And>k. k \<noteq> ''updated_at'' \<Longrightarrow> map_of (model_dump_exclude_none (parse_update b)) k = None
          \<Longrightarrow> map_of (doc_fields doc') k = map_of (doc_fields doc) k"
    by blast
  have "body_date b \<in> {Omitted, Null} \<longrightarrow>
            map_of (doc_fields doc') ''date'' = map_of (doc_fields doc) ''date''"
    using c(3)[of "''date''"] by (auto simp: map_of_model_dump parse_update_def)
  moreover have "body_time b \<in> {Omitted, Null} \<longrightarrow>
            map_of (doc_fields doc') ''time'' = map_of (doc_fields doc) ''time''"
    using c(3)[of "''time''"] by (auto simp: map_of_model_dump parse_update_def)
  moreover have "body_quantity b \<in> {Omitted, Null} \<longrightarrow>
            map_of (doc_fields doc') ''quantity'' = map_of (doc_fields doc) ''quantity''"
    using c(3)[of "''quantity''"] by (auto simp: map_of_model_dump parse_update_def)
  moreover have "body_amount b \<in> {Omitted, Null} \<longrightarrow>
            map_of (doc_fields doc') ''amount'' = map_of (doc_fields doc) ''amount''"
    using c(3)[of "''amount''"] by (auto simp: map_of_model_dump parse_update_def)
  ultimately show "\<exists>coll' doc'.
         snd (update_entry db now entry_id (parse_update b)) = Some coll' \<and>
         find_one coll' i = Some doc' \<and>
         (body_date b \<in> {Omitted, Null} \<longrightarrow>
            map_of (doc_fields doc') ''date'' = map_of (doc_fields doc) ''date'') \<and>
         (body_time b \<in> {Omitted, Null} \<longrightarrow>
            map_of (doc_fields doc') ''time'' = map_of (doc_fields doc) ''time'') \<and>
         (body_quantity b \<in> {Omitted, Null} \<longrightarrow>
            map_of (doc_fields doc') ''quantity'' = map_of (doc_fields doc) ''quantity'') \<and>
         (body_amount b \<in> {Omitted, Null} \<longrightarrow>
            map_of (doc_fields doc') ''amount'' = map_of (doc_fields doc) ''amount'')"
    using a c(1,2) by blast
qed


theorem null_same_as_omitted_witness:
  "omit_nulls body_with_null = omit_nulls body_without \<and>
   update_entry (Some [example_doc]) example_now ''65a1b2c3d4e5f60718293a4b''
     (parse_update body_with_null) =
   update_entry (Some [example_doc]) example_now ''65a1b2c3d4e5f60718293a4b''
     (parse_update body_without) \<and>
   ObjectId ''65a1b2c3d4e5f60718293a4b'' = Inr example_id \<and>
   find_one [example_doc] example_id = Some example_doc \<and>
   body_quantity body_with_null \<in> {Omitted, Null} \<and>
   update_entry (Some [example_doc]) example_now ''65a1b2c3d4e5f60718293a4b''
     (parse_update body_with_null) =
     (Inr (Some [(''date'', Str ''2024-02-01''), (''time'', Str ''08:00''),
                 (''quantity'', Num 2), (''amount'', Num 90),
                 (''created_at'', Str ''2024-01-02T08:00:01.250000''),
                 (''updated_at'', Str ''2024-01-03T12:30:15.123000''),
                 (''id'', Str ''65a1b2c3d4e5f60718293a4b'')]),
      Some [\<lparr>doc_id = Some example_id,
             doc_fields =
               [(''date'', Str ''2024-02-01''), (''time'', Str ''08:00''),
                (''quantity'', Num 2), (''amount'', Num 90),
                (''created_at'', Time \<lparr>year = 2024, month = 1, day = 2, hour = 8,
                   minute = 0, second = 1, microsecond = 250000\<rparr>),
                (''updated_at'', Time \<lparr>year = 2024, month = 1, day = 3, hour = 12,
                   minute = 30, second = 15, microsecond = 123000\<rparr>)]\<rparr>])"
proof -
  have h: "omit_nulls body_with_null = omit_nulls body_without"
    by (simp add: omit_nulls_def body_with_null_def body_without_def)
  have e: "update_entry (Some [example_doc]) example_now ''65a1b2c3d4e5f60718293a4b''
     (parse_update body_with_null) =
     (Inr (Some [(''date'', Str ''2024-02-01''), (''time'', Str ''08:00''),
                 (''quantity'', Num 2), (''amount'', Num 90),
                 (''created_at'', Str ''2024-01-02T08:00:01.250000''),
                 (''updated_at'', Str ''2024-01-03T12:30:15.123000''),
                 (''id'', Str ''65a1b2c3d4e5f60718293a4b'')]),
      Some [\<lparr>doc_id = Some example_id,
             doc_fields =
               [(''date'', Str ''2024-02-01''), (''time'', Str ''08:00''),
                (''quantity'', Num 2), (''amount'', Num 90),
                (''created_at'', Time \<lparr>year = 2024, month = 1, day = 2, hour = 8,
                   minute = 0, second = 1, microsecond = 250000\<rparr>),
                (''updated_at'', Time \<lparr>year = 2024, month = 1, day = 3, hour = 12,
                   minute = 30, second = 15, microsecond = 123000\<rparr>)]\<rparr>])"
    by (simp add: update_entry_def ObjectId_example parse_update_def body_with_null_def
        model_dump_exclude_none_def example_doc_def example_now_def find_one_def serialize_def
        serialize_dict_def falsy_def iso_items_def str_oid_example isoformat_def pad2_def
        pad4_def pad6_def digit_def)
  have q: "body_quantity body_with_null \<in> {Omitted, Null}"
    by (simp add: body_with_null_def)
  from h e q ObjectId_example find_one_example
    null_same_as_omitted [of body_with_null body_without "Some [example_doc]" example_now
      "''65a1b2c3d4e5f60718293a4b''"]
  show ?thesis by simp
qed


section \<open>Creation\<close>

text \<open>
  C5: with a store handle and an identifier from the driver that is twelve bytes long
  and not in use, creating an entry appends one document holding the four payload fields
  and \<^verbatim>\<open>created_at\<close> set to the clock reading at insertion (as the store keeps it), and
  responds with that document serialized, the assigned \<^verbatim>\<open>id\<close> included. Without a store
  handle it fails with \<^verbatim>\<open>503\<close>.
\<close>

theorem create_entry_inserts:
  assumes "length new_id = 12" and "find_one coll new_id = None"
  shows "create_entry (Some coll) now new_id entry =
     (Inr (Some [(''date'', Str (entry_date entry)), (''time'', Str (entry_time entry)),
                 (''quantity'', Num (entry_quantity entry)),
                 (''amount'', Num (entry_amount entry)),
                 (''created_at'',
                    Str (isoformat (now\<lparr>microsecond := microsecond now - microsecond now mod 1000\<rparr>))),
                 (''id'', Str (str_oid new_id))]),
      Some (coll @
        [\<lparr>doc_id = Some new_id,
          doc_fields =
            [(''date'', Str (entry_date entry)), (''time'', Str (entry_time entry)),
             (''quantity'', Num (entry_quantity entry)),
             (''amount'', Num (entry_amount entry)),
             (''created_at'',
                Time (now\<lparr>microsecond := microsecond now - microsecond now mod 1000\<rparr>))]\<rparr>])) \<and>
   create_entry None now new_id entry =
     (Inl (HTTPException 503 ''Database not available''), None)"
proof
  show "create_entry None now new_id entry =
     (Inl (HTTPException 503 ''Database not available''), None)"
    by (simp add: create_entry_def)
  show "create_entry (Some coll) now new_id entry =
     (Inr (Some [(''date'', Str (entry_date entry)), (''time'', Str (entry_time entry)),
                 (''quantity'', Num (entry_quantity entry)),
                 (''amount'', Num (entry_amount entry)),
                 (''created_at'',
                    Str (isoformat (now\<lparr>microsecond := microsecond now - microsecond now mod 1000\<rparr>))),
                 (''id'', Str (str_oid new_id))]),
      Some (coll @
        [\<lparr>doc_id = Some new_id,
          doc_fields =
            [(''date'', Str (entry_date entry)), (''time'', Str (entry_time entry)),
             (''quantity'', Num (entry_quantity entry)),
             (''amount'', Num (entry_amount entry)),
             (''created_at'',
                Time (now\<lparr>microsecond := microsecond now - microsecond now mod 1000\<rparr>))]\<rparr>]))"
    unfolding create_entry_fresh[OF assms]
    by (simp add: model_dump_def serialize_dict_def falsy_def iso_items_def)
qed


theorem create_entry_inserts_witness:
  "length other_id = 12 \<and> find_one [example_doc] other_id = None \<and>
   create_entry (Some [example_doc]) example_now other_id example_entry =
     (Inr (Some [(''date'', Str ''2024-01-03''), (''time'', Str ''12:30''),
                 (''quantity'', Num (5 / 2)), (''amount'', Num 120),
                 (''created_at'', Str ''2024-01-03T12:30:15.123000''),
                 (''id'', Str ''65a1b2c3d4e5f60718293a4c'')]),
      Some [example_doc,
            \<lparr>doc_id = Some other_id,
             doc_fields =
               [(''date'', Str ''2024-01-03''), (''time'', Str ''12:30''),
                (''quantity'', Num (5 / 2)), (''amount'', Num 120),
                (''created_at'', Time \<lparr>year = 2024, month = 1, day = 3, hour = 12,
                   minute = 30, second = 15, microsecond = 123000\<rparr>)]\<rparr>]) \<and>
   create_entry None example_now other_id example_entry =
     (Inl (HTTPException 503 ''Database not available''), None)"
proof -
  have h1: "length other_id = 12" by (simp add: other_id_def)
  have h2: "find_one [example_doc] other_id = None" by (rule find_one_other)
  from create_entry_inserts [OF h1 h2, of example_now example_entry] h1 h2
  show ?thesis
    by (simp add: example_now_def isoformat_def pad2_def pad4_def pad6_def digit_def
        str_oid_other example_entry_def)
qed


section \<open>Serialization of responses\<close>

text \<open>
  C6: in the serialization of a document the key \<^verbatim>\<open>id\<close> holds the string of the
  document's \<^verbatim>\<open>_id\<close>, every timestamp is replaced by its ISO string under the same key,
  every other value is kept, and no timestamp is left; and the list, create and update
  responses are all made by this one function from documents of the store.
\<close>

theorem serialization_uniform:
  "(\<forall>i. doc_id doc = Some i \<longrightarrow>
      map_of (serialize_dict doc) ''id'' = Some (Str (str_oid i))) \<and>
   (\<forall>k t. (k \<noteq> ''id'' \<or> doc_id doc = None) \<and> map_of (doc_fields doc) k = Some (Time t) \<longrightarrow>
      map_of (serialize_dict doc) k = Some (Str (isoformat t))) \<and>
   (\<forall>k v. (k \<noteq> ''id'' \<or> doc_id doc = None) \<and> map_of (doc_fields doc) k = Some v \<and>
      (\<forall>t. v \<noteq> Time t) \<longrightarrow> map_of (serialize_dict doc) k = Some v) \<and>
   (\<forall>k v t. (k, v) \<in> set (serialize_dict doc) \<longrightarrow> v \<noteq> Time t) \<and>
   list_entries (Some coll) = map serialize_dict (find_sorted coll) \<and>
   (\<forall>r. fst (create_entry db now new_id entry) = Inr r \<longrightarrow>
      (\<exists>coll' d. snd (create_entry db now new_id entry) = Some coll' \<and> d \<in> set coll' \<and>
         r = Some (serialize_dict d))) \<and>
   (\<forall>r. fst (update_entry db now entry_id payload) = Inr r \<longrightarrow>
      (\<exists>coll' d. snd (update_entry db now entry_id payload) = Some coll' \<and> d \<in> set coll' \<and>
         r = Some (serialize_dict d)))"
proof (intro conjI allI impI)
  fix i assume "doc_id doc = Some i"
  then show "map_of (serialize_dict doc) ''id'' = Some (Str (str_oid i))"
    by (simp add: serialize_dict_def falsy_def map_of_iso_items update_conv)
next
  fix k t
  assume a: "(k \<noteq> ''id'' \<or> doc_id doc = None) \<and> map_of (doc_fields doc) k = Some (Time t)"
  then have "doc_fields doc \<noteq> []" by auto
  with a show "map_of (serialize_dict doc) k = Some (Str (isoformat t))"
    by (auto simp: serialize_dict_def falsy_def map_of_iso_items update_conv
        split: option.splits)
next
  fix k v
  assume a: "(k \<noteq> ''id'' \<or> doc_id doc = None) \<and> map_of (doc_fields doc) k = Some v \<and>
      (\<forall>t. v \<noteq> Time t)"
  then have "doc_fields doc \<noteq> []" by auto
  moreover from a have "iso_value v = v" by (cases v) simp_all
  ultimately show "map_of (serialize_dict doc) k = Some v"
    using a
    by (auto simp: serialize_dict_def falsy_def map_of_iso_items update_conv
        split: option.splits)
next
  fix k v t
  assume "(k, v) \<in> set (serialize_dict doc)"
  then show "v \<noteq> Time t"
    by (auto simp: serialize_dict_def falsy_def iso_items_def iso_value_not_Time
        split: if_splits option.splits)
next
  show "list_entries (Some coll) = map serialize_dict (find_sorted coll)"
    by (simp add: list_entries_def)
next
  fix r
  assume a: "fst (create_entry db now new_id entry) = Inr r"
  then obtain coll where db: "db = Some coll"
    by (cases db) (simp_all add: create_entry_def)
  let ?d = "\<lparr>doc_id = Some new_id,
         doc_fields = map (\<lambda>(k, v). (k, to_bson v))
                        (model_dump entry @ [(''created_at'', Time now)])\<rparr>"
  from a db have fresh: "find_one coll new_id = None"
    by (auto simp: create_entry_def create_document_def insert_one_def split: if_splits)
  with a db obtain i where i: "ObjectId (str_oid new_id) = Inr i"
    by (cases "ObjectId (str_oid new_id)")
       (simp_all add: create_entry_def create_document_def insert_one_def)
  then have "i = new_id" by (rule ObjectId_str_oid_Inr)
  with i fresh db a have "snd (create_entry db now new_id entry) = Some (coll @ [?d])"
    and "r = Some (serialize_dict ?d)"
    by (simp_all add: create_entry_def create_document_def insert_one_def find_one_append
        serialize_def)
  then show "\<exists>coll' d. snd (create_entry db now new_id entry) = Some coll' \<and> d \<in> set coll' \<and>
         r = Some (serialize_dict d)"
    by (intro exI[of _ "coll @ [?d]"] exI[of _ ?d]) simp
next
  fix r
  assume a: "fst (update_entry db now entry_id payload) = Inr r"
  then obtain coll where db: "db = Some coll"
    by (cases db) (simp_all add: update_entry_def)
  with a obtain i where i: "ObjectId entry_id = Inr i"
    by (cases "ObjectId entry_id") (simp_all add: update_entry_def)
  have "find_one coll i \<noteq> None"
  proof
    assume n: "find_one coll i = None"
    with a db i show False
      by (simp add: update_entry_def update_one_absent Let_def split: if_splits)
  qed
  then obtain doc where doc: "find_one coll i = Some doc" by auto
  show "\<exists>coll' d. snd (update_entry db now entry_id payload) = Some coll' \<and> d \<in> set coll' \<and>
         r = Some (serialize_dict d)"
  proof (cases "model_dump_exclude_none payload = []")
    case True
    from update_entry_empty[OF i True, of coll now] doc a db
    show ?thesis
      by (intro exI[of _ coll] exI[of _ doc]) (simp add: find_one_mem)
  next
    case False
    from update_entry_present[OF i doc False, of now] obtain n where
      n: "update_entry (Some coll) now entry_id payload =
          (Inr (Some (serialize_dict (doc\<lparr>doc_fields := set_fields
             (AList.update ''updated_at'' (Time now) (model_dump_exclude_none payload))
             (doc_fields doc)\<rparr>))),
           Some (coll[n := doc\<lparr>doc_fields := set_fields
             (AList.update ''updated_at'' (Time now) (model_dump_exclude_none payload))
             (doc_fields doc)\<rparr>]))"
        "find_one (coll[n := doc\<lparr>doc_fields := set_fields
             (AList.update ''updated_at'' (Time now) (model_dump_exclude_none payload))
             (doc_fields doc)\<rparr>]) i =
          Some (doc\<lparr>doc_fields := set_fields
             (AList.update ''updated_at'' (Time now) (model_dump_exclude_none payload))
             (doc_fields doc)\<rparr>)"
      by blast
    from find_one_mem[OF n(2)] n(1) a db show ?thesis
      by auto
  qed
qed


theorem serialization_uniform_witness:
  "doc_id example_doc = Some example_id \<and>
   map_of (serialize_dict example_doc) ''id'' = Some (Str ''65a1b2c3d4e5f60718293a4b'') \<and>
   map_of (doc_fields example_doc) ''created_at'' =
     Some (Time \<lparr>year = 2024, month = 1, day = 2, hour = 8, minute = 0, second = 1,
                  microsecond = 250000\<rparr>) \<and>
   map_of (serialize_dict example_doc) ''created_at'' =
     Some (Str ''2024-01-02T08:00:01.250000'') \<and>
   map_of (doc_fields example_doc) ''amount'' = Some (Num 90) \<and>
   map_of (serialize_dict example_doc) ''amount'' = Some (Num 90) \<and>
   (''time'', Str ''08:00'') \<in> set (serialize_dict example_doc) \<and>
   list_entries (Some [example_doc]) = [serialize_dict example_doc] \<and>
   fst (update_entry (Some [example_doc]) example_now ''65a1b2c3d4e5f60718293a4b''
          empty_payload) = Inr (Some (serialize_dict example_doc)) \<and>
   fst (create_entry (Some []) example_now example_id example_entry) =
     Inr (Some [(''date'', Str ''2024-01-03''), (''time'', Str ''12:30''),
                (''quantity'', Num (5 / 2)), (''amount'', Num 120),
                (''created_at'', Str ''2024-01-03T12:30:15.123000''),
                (''id'', Str ''65a1b2c3d4e5f60718293a4b'')])"
proof -
  have u: "fst (update_entry (Some [example_doc]) example_now ''65a1b2c3d4e5f60718293a4b''
          empty_payload) = Inr (Some (serialize_dict example_doc))"
    by (simp add: update_entry_empty[OF ObjectId_example] model_dump_empty empty_payload_def
        find_one_example)
  have len: "length example_id = 12" by (simp add: example_id_def)
  have c: "fst (create_entry (Some []) example_now example_id example_entry) =
     Inr (Some [(''date'', Str ''2024-01-03''), (''time'', Str ''12:30''),
                (''quantity'', Num (5 / 2)), (''amount'', Num 120),
                (''created_at'', Str ''2024-01-03T12:30:15.123000''),
                (''id'', Str ''65a1b2c3d4e5f60718293a4b'')])"
    unfolding create_entry_fresh[OF len find_one_Nil]
    by (simp add: model_dump_def serialize_dict_def falsy_def iso_items_def str_oid_example
        example_now_def example_entry_def isoformat_def pad2_def pad4_def pad6_def digit_def)
  have l: "list_entries (Some [example_doc]) = [serialize_dict example_doc]"
    by (simp add: list_entries_def find_sorted_def)
  have d: "doc_id example_doc = Some example_id"
    "map_of (doc_fields example_doc) ''created_at'' =
     Some (Time \<lparr>year = 2024, month = 1, day = 2, hour = 8, minute = 0, second = 1,
                  microsecond = 250000\<rparr>)"
    "map_of (doc_fields example_doc) ''amount'' = Some (Num 90)"
    by (simp_all add: example_doc_def)
  from u c l d
    serialization_uniform [of example_doc "[example_doc]" "Some [example_doc]" example_now
      example_id example_entry "''65a1b2c3d4e5f60718293a4b''" empty_payload]
  show ?thesis
    by (simp add: serialize_example_doc)
qed


section \<open>The status report\<close>

text \<open>
  C9, as stated in the spec: \<^verbatim>\<open>database_url\<close> and \<^verbatim>\<open>database_name\<close> are one of the strings
  \<^verbatim>\<open>set\<close> and \<^verbatim>\<open>not set\<close>. With \<^verbatim>\<open>DATABASE_URL\<close> set and \<^verbatim>\<open>DATABASE_NAME\<close> unset the
  handler reports neither of the two strings in either field.
\<close>

theorem test_database_url_counterexample:
  "database_url (test_database (Some ''mongodb://localhost:27017'') None None (Inr [])) \<noteq> ''set'' \<and>
   database_url (test_database (Some ''mongodb://localhost:27017'') None None (Inr [])) \<noteq> ''not set'' \<and>
   database_name (test_database (Some ''mongodb://localhost:27017'') None None (Inr [])) \<noteq> ''set'' \<and>
   database_name (test_database (Some ''mongodb://localhost:27017'') None None (Inr [])) \<noteq> ''not set''"
  by (simp add: test_database_def truthy_def check_mark_def cross_mark_def)


text \<open>
  C9, amended: the report always has its six fields; \<^verbatim>\<open>backend\<close> is the running mark,
  \<^verbatim>\<open>database_url\<close> and \<^verbatim>\<open>database_name\<close> are the check mark with \<^verbatim>\<open>Set\<close> when the
  variable is set and not empty and the cross mark with \<^verbatim>\<open>Not Set\<close> otherwise. Without a
  store handle the database is reported not available; with one and a probe that
  succeeds, the collection names are reported; with one and a probe that raises, nothing
  is raised: \<^verbatim>\<open>database\<close> becomes the cross mark, \<^verbatim>\<open>Error:\<close> and the error text cut to
  its first 80 characters (a prefix of the text; its first 80 bytes when the text is
  ASCII).
\<close>

theorem test_database_status:
  "backend (test_database url name db probe) = check_mark @ '' Running'' \<and>
   database_url (test_database url name db probe) =
     (if truthy url then check_mark @ '' Set'' else cross_mark @ '' Not Set'') \<and>
   database_name (test_database url name db probe) =
     (if truthy name then check_mark @ '' Set'' else cross_mark @ '' Not Set'') \<and>
   database (test_database url name None probe) = cross_mark @ '' Not Available'' \<and>
   connection_status (test_database url name None probe) = ''Not Connected'' \<and>
   collections (test_database url name None probe) = [] \<and>
   database (test_database url name (Some h) (Inr names)) = check_mark @ '' Available'' \<and>
   connection_status (test_database url name (Some h) (Inr names)) = ''Connected'' \<and>
   collections (test_database url name (Some h) (Inr names)) = names \<and>
   database (test_database url name (Some h) (Inl msg)) =
     cross_mark @ '' Error: '' @ take_chars 80 msg \<and>
   connection_status (test_database url name (Some h) (Inl msg)) = ''Connected'' \<and>
   collections (test_database url name (Some h) (Inl msg)) = [] \<and>
   (\<exists>rest. msg = take_chars 80 msg @ rest) \<and>
   length (filter (\<lambda>c. \<not> continuation c) (take_chars 80 msg)) \<le> 80 \<and>
   ((\<forall>c\<in>set msg. \<not> continuation c) \<longrightarrow> take_chars 80 msg = take 80 msg)"
proof (intro conjI)
  show "backend (test_database url name db probe) = check_mark @ '' Running''"
    by (simp add: test_database_def Let_def split: option.splits sum.splits)
  show "database_url (test_database url name db probe) =
     (if truthy url then check_mark @ '' Set'' else cross_mark @ '' Not Set'')"
    by (simp add: test_database_def Let_def split: option.splits sum.splits)
  show "database_name (test_database url name db probe) =
     (if truthy name then check_mark @ '' Set'' else cross_mark @ '' Not Set'')"
    by (simp add: test_database_def Let_def split: option.splits sum.splits)
  show "\<exists>rest. msg = take_chars 80 msg @ rest" by (rule take_chars_prefix)
  show "length (filter (\<lambda>c. \<not> continuation c) (take_chars 80 msg)) \<le> 80"
    by (rule take_chars_count)
  show "(\<forall>c\<in>set msg. \<not> continuation c) \<longrightarrow> take_chars 80 msg = take 80 msg"
    by (simp add: take_chars_ascii)
qed (simp_all add: test_database_def)


theorem test_database_status_witness:
  "filter continuation probe_message = [] \<and>
   test_database (Some ''mongodb://localhost:27017'') (Some []) (Some [example_doc])
     (Inl probe_message) =
     \<lparr>backend = check_mark @ '' Running'',
      database = cross_mark @ '' Error: '' @
        ''localhost:27017: [Errno 111] Connection refused (configured timeouts: socketTime'',
      database_url = check_mark @ '' Set'',
      database_name = cross_mark @ '' Not Set'',
      connection_status = ''Connected'',
      collections = []\<rparr>"
proof -
  have t: "take 80 probe_message =
      ''localhost:27017: [Errno 111] Connection refused (configured timeouts: socketTime''"
    by (simp add: probe_message_def)
  have a: "filter continuation probe_message = []"
    using probe_message_ascii by (simp add: filter_empty_conv)
  from a probe_message_ascii
    test_database_status [of "Some ''mongodb://localhost:27017''" "Some []" "Some [example_doc]"
      "Inl probe_message" "[example_doc]" "[]" probe_message]
  show ?thesis
    by (simp add: t truthy_def)
qed

end
